theory Spec2Isabelle
  imports Complex_Main
begin

section \<open>Exceptions\<close>

text \<open>
  An exception value is known by the classes it is an instance of (the method resolution
  order of its class). \<open>except C\<close> catches it when \<open>C\<close> is among them; \<open>except (C1, ..., Cn)\<close>
  when one of the \<open>Ci\<close> is.
\<close>

datatype exc_class =
  BaseException | Exception | CancelledError | OSError | TimeoutError | ClientError
  | ValueError | TypeError | RuntimeError | AttributeError | IndexError
  | KeyboardInterrupt | SystemExit | Custom string

datatype exc = Exc (mro: "exc_class list")

definition isinstance :: "exc \<Rightarrow> exc_class \<Rightarrow> bool" where
  "isinstance e c = (c \<in> set (mro e))"

definition caught_by :: "exc_class list \<Rightarrow> exc \<Rightarrow> bool" where
  "caught_by classes e = (\<exists>c \<in> set classes. isinstance e c)"

definition value_error :: exc where
  "value_error = Exc [ValueError, Exception, BaseException]"

definition type_error :: exc where
  "type_error = Exc [TypeError, Exception, BaseException]"

definition index_error :: exc where
  "index_error = Exc [IndexError, Exception, BaseException]"

definition runtime_error :: exc where
  "runtime_error = Exc [RuntimeError, Exception, BaseException]"

definition attribute_error :: exc where
  "attribute_error = Exc [AttributeError, Exception, BaseException]"

definition cancelled_error :: exc where
  "cancelled_error = Exc [CancelledError, BaseException]"

section \<open>Dates and times\<close>

text \<open>
  Time is counted in microseconds, the resolution of \<open>datetime\<close>. A zone is a fixed offset
  from UTC in whole minutes (\<open>datetime.timezone\<close>). A date is a day number, a time of day
  the microseconds since midnight, and an aware \<open>datetime\<close> its calendar reading in its own
  zone together with the zone. The range of years of \<open>datetime\<close> is not modelled.
\<close>

datatype tzinfo = Tz (offset_minutes: int)

definition UTC :: tzinfo where
  "UTC = Tz 0"

definition utcoffset :: "tzinfo \<Rightarrow> int" where
  "utcoffset z = offset_minutes z * 60000000"

definition day_us :: int where
  "day_us = 86400000000"

text \<open>\<open>datetime.time\<close> as a caller passes it: the zone may be missing.\<close>

record dtime =
  tod :: int
  tzinfo :: "tzinfo option"

text \<open>An aware time of day, as \<open>_sort_static_times\<close> stores it.\<close>

record atime =
  a_tod :: int
  a_tz :: tzinfo

record datetime =
  wall :: int
  zone :: tzinfo

definition utc_instant :: "datetime \<Rightarrow> int" where
  "utc_instant d = wall d - utcoffset (zone d)"

definition astimezone :: "tzinfo \<Rightarrow> datetime \<Rightarrow> datetime" where
  "astimezone z d = \<lparr>wall = utc_instant d + utcoffset z, zone = z\<rparr>"

definition date_of :: "datetime \<Rightarrow> int" where
  "date_of d = wall d div day_us"

definition timetz :: "datetime \<Rightarrow> atime" where
  "timetz d = \<lparr>a_tod = wall d mod day_us, a_tz = zone d\<rparr>"

definition combine :: "int \<Rightarrow> atime \<Rightarrow> datetime" where
  "combine dy t = \<lparr>wall = dy * day_us + a_tod t, zone = a_tz t\<rparr>"

definition add_timedelta :: "datetime \<Rightarrow> int \<Rightarrow> datetime" where
  "add_timedelta d delta = d\<lparr>wall := wall d + delta\<rparr>"

text \<open>\<open>a <= b\<close> on aware datetimes compares the instants.\<close>

definition datetime_le :: "datetime \<Rightarrow> datetime \<Rightarrow> bool" where
  "datetime_le a b = (utc_instant a \<le> utc_instant b)"

text \<open>
  \<open>a >= b\<close> on aware times: with the same zone the times of day are compared, otherwise
  both are first moved to UTC.
\<close>

definition time_key :: "atime \<Rightarrow> int" where
  "time_key t = a_tod t - utcoffset (a_tz t)"

definition time_ge :: "atime \<Rightarrow> atime \<Rightarrow> bool" where
  "time_ge a b = (if a_tz a = a_tz b then a_tod b \<le> a_tod a else time_key b \<le> time_key a)"

text \<open>\<open>utils.utcnow()\<close> when the clock reads \<open>t\<close>.\<close>

definition utcnow :: "int \<Rightarrow> datetime" where
  "utcnow t = \<lparr>wall = t, zone = UTC\<rparr>"

text \<open>
  \<open>timedelta(seconds=x)\<close>: the seconds are rounded to whole microseconds, a tie going to the
  even neighbour. The numbers of seconds, minutes and hours are reals here: the rounding of
  floating-point arithmetic is not modelled.
\<close>

definition round_half_even :: "real \<Rightarrow> int" where
  "round_half_even x =
     (let f = \<lfloor>x\<rfloor>; r = x - of_int f
      in if r < 1 / 2 then f else if 1 / 2 < r then f + 1 else if even f then f else f + 1)"

definition timedelta_seconds :: "real \<Rightarrow> int" where
  "timedelta_seconds x = round_half_even (x * 1000000)"

section \<open>The host's event loop and the countdown timer\<close>

text \<open>
  The event loop owns the futures and the delayed calls registered with \<open>call_later\<close>.
  Every delayed call of this program is \<open>future.set_result(True)\<close> on the future \<open>target\<close>.
  A \<open>Sleeper\<close> keeps the index of its future and of its current timer handle.
\<close>

datatype fstate = Pending | Result | FCancelled

record timer_handle =
  delay :: int
  cancelled :: bool
  fired :: bool
  target :: nat

record event_loop =
  futures :: "fstate list"
  timers :: "timer_handle list"

record Sleeper =
  future :: nat
  handle :: nat

definition create_future :: "event_loop \<Rightarrow> nat \<times> event_loop" where
  "create_future h = (length (futures h), h\<lparr>futures := futures h @ [Pending]\<rparr>)"

definition call_later :: "int \<Rightarrow> nat \<Rightarrow> event_loop \<Rightarrow> nat \<times> event_loop" where
  "call_later d f h =
     (length (timers h),
      h\<lparr>timers := timers h @ [\<lparr>delay = d, cancelled = False, fired = False, target = f\<rparr>]\<rparr>)"

definition handle_cancel :: "nat \<Rightarrow> event_loop \<Rightarrow> event_loop" where
  "handle_cancel i h = h\<lparr>timers := (timers h)[i := (timers h ! i)\<lparr>cancelled := True\<rparr>]\<rparr>"

definition future_cancel :: "nat \<Rightarrow> event_loop \<Rightarrow> event_loop" where
  "future_cancel f h =
     (if f < length (futures h) \<and> futures h ! f = Pending
      then h\<lparr>futures := (futures h)[f := FCancelled]\<rparr> else h)"

definition future_done :: "nat \<Rightarrow> event_loop \<Rightarrow> bool" where
  "future_done f h = (f < length (futures h) \<and> futures h ! f \<noteq> Pending)"

text \<open>The remaining wait in microseconds: \<open>max((dt - utils.utcnow()).total_seconds(), 0)\<close>.\<close>

definition remaining :: "datetime \<Rightarrow> int \<Rightarrow> int" where
  "remaining dt now = max (utc_instant dt - utc_instant (utcnow now)) 0"

definition Sleeper_init :: "datetime \<Rightarrow> int \<Rightarrow> event_loop \<Rightarrow> Sleeper \<times> event_loop" where
  "Sleeper_init dt now h =
     (let (f, h1) = create_future h;
          (i, h2) = call_later (remaining dt now) f h1
      in (\<lparr>future = f, handle = i\<rparr>, h2))"

definition recalculate :: "Sleeper \<Rightarrow> datetime \<Rightarrow> int \<Rightarrow> event_loop \<Rightarrow> Sleeper \<times> event_loop" where
  "recalculate s dt now h =
     (let h1 = handle_cancel (handle s) h;
          (i, h2) = call_later (remaining dt now) (future s) h1
      in (s\<lparr>handle := i\<rparr>, h2))"

definition wait :: "Sleeper \<Rightarrow> nat" where
  "wait s = future s"

definition sleeper_done :: "Sleeper \<Rightarrow> event_loop \<Rightarrow> bool" where
  "sleeper_done s h = future_done (future s) h"

definition cancel_sleeper :: "Sleeper \<Rightarrow> event_loop \<Rightarrow> event_loop" where
  "cancel_sleeper s h = handle_cancel (handle s) (future_cancel (future s) h)"

text \<open>
  The event loop runs the delayed call \<open>i\<close>: a cancelled or already run handle does nothing,
  otherwise \<open>set_result\<close> completes the target when it is still pending (on a completed
  future it raises \<open>InvalidStateError\<close> inside the event loop and the future keeps its state).
\<close>

definition fire :: "nat \<Rightarrow> event_loop \<Rightarrow> event_loop" where
  "fire i h =
     (if i < length (timers h) \<and> \<not> cancelled (timers h ! i) \<and> \<not> fired (timers h ! i)
      then let f = target (timers h ! i);
               h1 = h\<lparr>timers := (timers h)[i := (timers h ! i)\<lparr>fired := True\<rparr>]\<rparr>
           in if f < length (futures h1) \<and> futures h1 ! f = Pending
              then h1\<lparr>futures := (futures h1)[f := Result]\<rparr> else h1
      else h)"

text \<open>Which registered triggers would still complete the future \<open>f\<close>.\<close>

definition trigger_flags :: "nat \<Rightarrow> event_loop \<Rightarrow> bool list" where
  "trigger_flags f h = map (\<lambda>t. target t = f \<and> \<not> cancelled t \<and> \<not> fired t) (timers h)"

text \<open>
  The wait of a sleeper is in flight: its signal is pending and exactly one pending trigger
  is registered for it, the sleeper's current handle.
\<close>

definition in_flight :: "Sleeper \<Rightarrow> event_loop \<Rightarrow> bool" where
  "in_flight s h =
     (future s < length (futures h) \<and> futures h ! future s = Pending \<and>
      handle s < length (timers h) \<and>
      trigger_flags (future s) h = (replicate (length (timers h)) False)[handle s := True])"

section \<open>The schedule\<close>

text \<open>
  What a caller may pass as \<open>time\<close>: nothing, one \<open>datetime.time\<close>, a sequence of objects
  (each a \<open>datetime.time\<close> or not), or an object that is neither a time nor a sequence.
\<close>

datatype pyobj = ATime dtime | NotATime

datatype time_arg = TimeNone | TimeOne dtime | TimeSeq "pyobj list" | TimeOther

definition aware :: "dtime \<Rightarrow> atime" where
  "aware t = (case tzinfo t of Some z \<Rightarrow> \<lparr>a_tod = tod t, a_tz = z\<rparr>
                              | None \<Rightarrow> \<lparr>a_tod = tod t, a_tz = UTC\<rparr>)"

fun normalize_times :: "pyobj list \<Rightarrow> exc + atime list" where
  "normalize_times [] = Inr []"
| "normalize_times (NotATime # rest) = Inl type_error"
| "normalize_times (ATime t # rest) =
     (case normalize_times rest of Inl e \<Rightarrow> Inl e | Inr out \<Rightarrow> Inr (aware t # out))"

text \<open>\<open>set(output)\<close>: of equal times the one added first stays.\<close>

definition dedup :: "atime list \<Rightarrow> atime list" where
  "dedup xs =
     fold (\<lambda>x acc. if time_key x \<in> set (map time_key acc) then acc else acc @ [x]) xs []"

definition sort_static_times :: "time_arg \<Rightarrow> exc + atime list" where
  "sort_static_times tms =
     (case tms of
        TimeOne t \<Rightarrow> Inr [aware t]
      | TimeSeq xs \<Rightarrow>
          (if xs = [] then Inl value_error
           else case normalize_times xs of
                  Inl e \<Rightarrow> Inl e
                | Inr out \<Rightarrow> Inr (sort_key time_key (dedup out)))
      | TimeNone \<Rightarrow> Inl type_error
      | TimeOther \<Rightarrow> Inl type_error)"

fun find_from :: "nat \<Rightarrow> atime list \<Rightarrow> datetime \<Rightarrow> nat option" where
  "find_from i [] now = None"
| "find_from i (ts # rest) now =
     (let start = astimezone (a_tz ts) now
      in if time_ge ts (timetz start) then Some i else find_from (Suc i) rest now)"

definition find_time_index :: "atime list option \<Rightarrow> datetime \<Rightarrow> nat option" where
  "find_time_index tm now =
     (case tm of None \<Rightarrow> None | Some [] \<Rightarrow> None | Some ts \<Rightarrow> find_from 0 ts now)"

section \<open>The periodic task supervisor\<close>

text \<open>
  \<open>_looper\<close> is a coroutine: it runs until its next \<open>await\<close> and is resumed by the event
  loop with the outcome of what it awaits. \<open>pc\<close> names the \<open>await\<close> it is suspended at;
  \<open>AwaitAfterLoop\<close> remembers how the \<open>try\<close> block was left, for the end of \<open>finally\<close>.
\<close>

datatype exit = ExitNormal | ExitRaise exc

datatype pc =
  NotStarted | AwaitBeforeLoop | AwaitYield | AwaitSleepTop | AwaitSleepDrift | AwaitBody
  | AwaitBackoff | AwaitSleepRel | AwaitErrorHook | AwaitAfterLoop exit

datatype outcome = Returned | Cancelled | Raised exc

datatype task = Running pc | Finished outcome

text \<open>The calls the loop makes to its collaborators, in order.\<close>

datatype call =
  CallBeforeLoop | CallBody | CallError exc | CallAfterLoop | CallSleep nat | LogWarning

text \<open>
  The fields of \<open>Loop\<close>. \<open>handle_attr\<close> is the attribute \<open>_handle\<close>: \<open>None\<close> while it has
  never been assigned (reading it then raises \<open>AttributeError\<close>). \<open>must_cancel\<close> belongs to
  the task, \<open>host\<close> is the event loop and \<open>calls\<close> the record of the calls made.
\<close>

record Loop =
  reconnect :: bool
  count :: "int option"
  task :: "task option"
  must_cancel :: bool
  whitelist_exceptions :: "exc_class list"
  seconds :: "real option"
  minutes :: "real option"
  hours :: "real option"
  sleep :: "real option"
  time :: "atime list option"
  will_cancel :: bool
  should_stop :: bool
  has_faild :: bool
  last_loop_failed :: bool
  last_loop :: "datetime option"
  next_loop :: "datetime option"
  loop_count :: int
  handle_attr :: "Sleeper option"
  host :: event_loop
  calls :: "call list"

definition is_running :: "Loop \<Rightarrow> bool" where
  "is_running L = (case task L of Some (Running p) \<Rightarrow> True | _ \<Rightarrow> False)"

definition failed :: "Loop \<Rightarrow> bool" where
  "failed L = has_faild L"

definition is_being_cancelled :: "Loop \<Rightarrow> bool" where
  "is_being_cancelled L = will_cancel L"

definition is_relative_time :: "Loop \<Rightarrow> bool" where
  "is_relative_time L = (time L = None)"

definition is_explicit_time :: "Loop \<Rightarrow> bool" where
  "is_explicit_time L = (time L \<noteq> None)"

text \<open>
  \<open>_next_sleep_time\<close>, with the reading of the clock as its argument. The error branches are
  what Python raises on \<open>None + timedelta\<close>, on \<open>None[0]\<close> and on \<open>[][0]\<close>.
\<close>

definition next_sleep_time :: "Loop \<Rightarrow> datetime \<Rightarrow> exc + datetime" where
  "next_sleep_time L now =
     (case sleep L of
        Some sl \<Rightarrow>
          (case last_loop L of
             None \<Rightarrow> Inl type_error
           | Some l \<Rightarrow> Inr (add_timedelta l (timedelta_seconds sl)))
      | None \<Rightarrow>
          (case find_time_index (time L) now of
             None \<Rightarrow>
               (case time L of
                  None \<Rightarrow> Inl type_error
                | Some [] \<Rightarrow> Inl index_error
                | Some (tm # rest) \<Rightarrow>
                    (let tomorrow = add_timedelta (astimezone (a_tz tm) now) day_us
                     in Inr (astimezone UTC (combine (date_of tomorrow) tm))))
           | Some index \<Rightarrow>
               (case time L of
                  None \<Rightarrow> Inl type_error
                | Some ts \<Rightarrow>
                    (let tm = ts ! index
                     in Inr (astimezone UTC (combine (date_of (astimezone (a_tz tm) now)) tm))))))"

definition or_zero :: "real option \<Rightarrow> real" where
  "or_zero x = (case x of None \<Rightarrow> 0 | Some v \<Rightarrow> v)"

definition truthy :: "real option \<Rightarrow> bool" where
  "truthy x = (case x of None \<Rightarrow> False | Some v \<Rightarrow> v \<noteq> 0)"

text \<open>The end of \<open>handle_interval\<close> (lines 434 to 437), once the fields are set.\<close>

definition reschedule :: "int \<Rightarrow> Loop \<Rightarrow> exc option \<times> Loop" where
  "reschedule now L =
     (if is_running L \<and> last_loop L \<noteq> None
      then case next_sleep_time L (utcnow now) of
             Inl e \<Rightarrow> (Some e, L)
           | Inr n \<Rightarrow>
               (let L1 = L\<lparr>next_loop := Some n\<rparr>
                in case handle_attr L1 of
                     None \<Rightarrow> (Some attribute_error, L1)
                   | Some s \<Rightarrow>
                       if \<not> sleeper_done s (host L1)
                       then let (s', h') = recalculate s n now (host L1)
                            in (None, L1\<lparr>handle_attr := Some s', host := h'\<rparr>)
                       else (None, L1))
      else (None, L))"

definition handle_interval ::
  "real option \<Rightarrow> real option \<Rightarrow> real option \<Rightarrow> time_arg \<Rightarrow> int \<Rightarrow> Loop \<Rightarrow> exc option \<times> Loop" where
  "handle_interval secs mins hrs tm now L =
     (if tm = TimeNone
      then let s = or_zero secs; m = or_zero mins; h = or_zero hrs;
               sl = s + m * 60 + h * 3600
           in if sl \<le> 0 then (Some value_error, L)
              else reschedule now
                     (L\<lparr>seconds := Some s, minutes := Some m, hours := Some h,
                        sleep := Some sl, time := None\<rparr>)
      else if truthy secs \<or> truthy mins \<or> truthy hrs then (Some value_error, L)
      else case sort_static_times tm of
             Inl e \<Rightarrow> (Some e, L)
           | Inr ts \<Rightarrow>
               reschedule now
                 (L\<lparr>time := Some ts, sleep := None, seconds := None, minutes := None,
                    hours := None\<rparr>))"

text \<open>
  \<open>__init__\<close>. \<open>handle_interval\<close> runs before the flags are assigned and reads none of them
  (no task exists yet), so the fields are given their initial values at once.
\<close>

definition initial_fields :: "int option \<Rightarrow> bool \<Rightarrow> Loop" where
  "initial_fields cnt rc =
     \<lparr>reconnect = rc, count = cnt, task = None, must_cancel = False,
      whitelist_exceptions = [OSError, TimeoutError, ClientError],
      seconds = None, minutes = None, hours = None, sleep = None, time = None,
      will_cancel = False, should_stop = False, has_faild = False,
      last_loop_failed = False, last_loop = None, next_loop = None,
      loop_count = 0, handle_attr = None,
      host = \<lparr>futures = [], timers = []\<rparr>, calls = []\<rparr>"


section \<open>The coroutine \<open>_looper\<close>\<close>

text \<open>What the event loop resumes a suspended coroutine with: the awaited thing returned, or
  an exception is thrown at the \<open>await\<close> (the awaited callable raised it, or the task was
  cancelled and \<open>CancelledError\<close> arrives).\<close>

datatype event = Ret | Throw exc

definition outcome_of :: "exc \<Rightarrow> outcome" where
  "outcome_of e = (if isinstance e CancelledError then Cancelled else Raised e)"

definition finish :: "outcome \<Rightarrow> Loop \<Rightarrow> Loop" where
  "finish out L = L\<lparr>task := Some (Finished out)\<rparr>"

text \<open>Line 223, the first statement of \<open>finally\<close>: \<open>await self._after_loop()\<close>.\<close>

definition enter_finally :: "exit \<Rightarrow> Loop \<Rightarrow> Loop" where
  "enter_finally ex L =
     L\<lparr>calls := calls L @ [CallAfterLoop], task := Some (Running (AwaitAfterLoop ex))\<rparr>"

text \<open>Lines 224 to 228, the rest of \<open>finally\<close>, and the end of the coroutine.\<close>

definition cleanup :: "exit \<Rightarrow> Loop \<Rightarrow> Loop" where
  "cleanup ex L =
     (case handle_attr L of
        None \<Rightarrow> finish (Raised attribute_error) L
      | Some s \<Rightarrow>
          finish (case ex of ExitNormal \<Rightarrow> Returned | ExitRaise e \<Rightarrow> outcome_of e)
            (L\<lparr>host := cancel_sleeper s (host L), will_cancel := False, loop_count := 0,
               should_stop := False\<rparr>))"

text \<open>Lines 216 to 221: an exception leaves the \<open>try\<close> block.\<close>

definition handle_exception :: "exc \<Rightarrow> Loop \<Rightarrow> Loop" where
  "handle_exception e L =
     (if isinstance e CancelledError then enter_finally (ExitRaise e) (L\<lparr>will_cancel := True\<rparr>)
      else if isinstance e Exception
      then L\<lparr>has_faild := True, calls := calls L @ [CallError e],
             task := Some (Running AwaitErrorHook)\<rparr>
      else enter_finally (ExitRaise e) L)"

text \<open>
  \<open>_try_sleep_until\<close>, called inside the \<open>try\<close> block and awaited at \<open>p\<close>. With no datetime
  to wait for, \<open>Sleeper.__init__\<close> has created its future when the subtraction raises.
\<close>

definition try_sleep_until :: "datetime option \<Rightarrow> int \<Rightarrow> pc \<Rightarrow> Loop \<Rightarrow> Loop" where
  "try_sleep_until dt now p L =
     (case dt of
        None \<Rightarrow> handle_exception type_error (L\<lparr>host := snd (create_future (host L))\<rparr>)
      | Some d \<Rightarrow>
          (let (s, h) = Sleeper_init d now (host L)
           in L\<lparr>handle_attr := Some s, host := h, task := Some (Running p)\<rparr>))"

text \<open>Line 195: \<open>await self.func(*args, **kwargs)\<close>.\<close>

definition call_body :: "Loop \<Rightarrow> Loop" where
  "call_body L = L\<lparr>calls := calls L @ [CallBody], task := Some (Running AwaitBody)\<rparr>"

text \<open>Lines 183 to 191: the test of the inner \<open>while\<close> and, when it holds, the wait.\<close>

definition drift_check :: "int \<Rightarrow> Loop \<Rightarrow> Loop" where
  "drift_check now L =
     (if is_explicit_time L
      then case (next_loop L, last_loop L) of
             (Some n, Some l) \<Rightarrow>
               if datetime_le n l
               then try_sleep_until (Some n) now AwaitSleepDrift
                      (L\<lparr>calls := calls L @ [LogWarning]\<rparr>)
               else call_body L
           | _ \<Rightarrow> handle_exception type_error L
      else call_body L)"

text \<open>Lines 179 to 182.\<close>

definition after_wake :: "int \<Rightarrow> Loop \<Rightarrow> Loop" where
  "after_wake now L =
     (if \<not> last_loop_failed L
      then let L1 = L\<lparr>last_loop := next_loop L\<rparr>
           in case next_sleep_time L1 (utcnow now) of
                Inl e \<Rightarrow> handle_exception e L1
              | Inr n \<Rightarrow> drift_check now (L1\<lparr>next_loop := Some n\<rparr>)
      else call_body L)"

text \<open>Lines 175 to 177: the head of \<open>while True\<close>.\<close>

definition loop_top :: "int \<Rightarrow> Loop \<Rightarrow> Loop" where
  "loop_top now L =
     (if is_explicit_time L then try_sleep_until (next_loop L) now AwaitSleepTop L
      else after_wake now L)"

text \<open>Lines 171 to 173: entering \<open>try\<close>.\<close>

definition enter_try :: "int \<Rightarrow> Loop \<Rightarrow> Loop" where
  "enter_try now L = (if should_stop L then enter_finally ExitNormal L else loop_top now L)"

text \<open>Lines 209 to 214.\<close>

definition after_cycle :: "int \<Rightarrow> Loop \<Rightarrow> Loop" where
  "after_cycle now L =
     (let L1 = L\<lparr>loop_count := loop_count L + 1\<rparr>
      in if (case count L1 of None \<Rightarrow> False | Some c \<Rightarrow> c \<noteq> 0 \<and> c \<le> loop_count L1)
         then enter_finally ExitNormal L1
         else loop_top now L1)"

text \<open>Lines 196 and 203 to 207: the body returned.\<close>

definition body_returned :: "int \<Rightarrow> Loop \<Rightarrow> Loop" where
  "body_returned now L =
     (let L1 = L\<lparr>last_loop_failed := False\<rparr>
      in if should_stop L1 then enter_finally ExitNormal L1
         else if is_relative_time L1 then try_sleep_until (next_loop L1) now AwaitSleepRel L1
         else after_cycle now L1)"

text \<open>Lines 197 to 201: the body raised.\<close>

definition body_raised :: "exc \<Rightarrow> Loop \<Rightarrow> Loop" where
  "body_raised e L =
     (if caught_by (whitelist_exceptions L) e
      then let L1 = L\<lparr>last_loop_failed := True\<rparr>
           in if \<not> reconnect L1 then handle_exception e L1
              else L1\<lparr>calls := calls L1 @ [CallSleep 5], task := Some (Running AwaitBackoff)\<rparr>
      else handle_exception e L)"

text \<open>Lines 162 to 169: after \<open>before_loop\<close>, outside the \<open>try\<close> block.\<close>

definition after_before_loop :: "int \<Rightarrow> Loop \<Rightarrow> Loop" where
  "after_before_loop now L =
     (let L1 = L\<lparr>last_loop_failed := False\<rparr>
      in if is_explicit_time L1
         then case next_sleep_time L1 (utcnow now) of
                Inl e \<Rightarrow> finish (outcome_of e) L1
              | Inr n \<Rightarrow> enter_try now (L1\<lparr>next_loop := Some n\<rparr>)
         else L1\<lparr>next_loop := Some (utcnow now), calls := calls L1 @ [CallSleep 0],
                 task := Some (Running AwaitYield)\<rparr>)"

text \<open>The callback of the awaited timer ran, or the awaited future is cancelled.\<close>

definition woken :: "Loop \<Rightarrow> Loop" where
  "woken L = (case handle_attr L of None \<Rightarrow> L
                | Some s \<Rightarrow> L\<lparr>host := fire (handle s) (host L)\<rparr>)"

definition interrupted :: "Loop \<Rightarrow> Loop" where
  "interrupted L = (case handle_attr L of None \<Rightarrow> L
                      | Some s \<Rightarrow> L\<lparr>host := future_cancel (future s) (host L)\<rparr>)"

text \<open>
  One run of the coroutine, from the \<open>await\<close> it is suspended at to the next one or to its
  end, when the clock reads \<open>now\<close>. A task that was never started and is resumed with an
  exception ends without having run a line.
\<close>

definition resume :: "event \<Rightarrow> int \<Rightarrow> Loop \<Rightarrow> Loop" where
  "resume ev now L =
     (case task L of
        Some (Running p) \<Rightarrow>
          (case p of
             NotStarted \<Rightarrow>
               (case ev of
                  Throw e \<Rightarrow> finish (outcome_of e) L
                | Ret \<Rightarrow> L\<lparr>calls := calls L @ [CallBeforeLoop],
                           task := Some (Running AwaitBeforeLoop)\<rparr>)
           | AwaitBeforeLoop \<Rightarrow>
               (case ev of Throw e \<Rightarrow> finish (outcome_of e) L
                         | Ret \<Rightarrow> after_before_loop now L)
           | AwaitYield \<Rightarrow>
               (case ev of Throw e \<Rightarrow> finish (outcome_of e) L | Ret \<Rightarrow> enter_try now L)
           | AwaitSleepTop \<Rightarrow>
               (case ev of Throw e \<Rightarrow> handle_exception e (interrupted L)
                         | Ret \<Rightarrow> after_wake now (woken L))
           | AwaitSleepDrift \<Rightarrow>
               (case ev of
                  Throw e \<Rightarrow> handle_exception e (interrupted L)
                | Ret \<Rightarrow>
                    (let L1 = woken L
                     in case next_sleep_time L1 (utcnow now) of
                          Inl e \<Rightarrow> handle_exception e L1
                        | Inr n \<Rightarrow> drift_check now (L1\<lparr>next_loop := Some n\<rparr>)))
           | AwaitBody \<Rightarrow>
               (case ev of Throw e \<Rightarrow> body_raised e L | Ret \<Rightarrow> body_returned now L)
           | AwaitBackoff \<Rightarrow>
               (case ev of Throw e \<Rightarrow> handle_exception e L | Ret \<Rightarrow> loop_top now L)
           | AwaitSleepRel \<Rightarrow>
               (case ev of Throw e \<Rightarrow> handle_exception e (interrupted L)
                         | Ret \<Rightarrow> after_cycle now (woken L))
           | AwaitErrorHook \<Rightarrow>
               (case ev of Throw e \<Rightarrow> enter_finally (ExitRaise e) L
                         | Ret \<Rightarrow> enter_finally ExitNormal L)
           | AwaitAfterLoop ex \<Rightarrow>
               (case ev of Throw e \<Rightarrow> finish (outcome_of e) L | Ret \<Rightarrow> cleanup ex L))
      | _ \<Rightarrow> L)"

section \<open>The control surface\<close>

definition start :: "Loop \<Rightarrow> exc option \<times> Loop" where
  "start L =
     (if is_running L then (Some runtime_error, L)
      else (None, L\<lparr>last_loop_failed := False, task := Some (Running NotStarted),
                     must_cancel := False\<rparr>))"

definition stop :: "Loop \<Rightarrow> Loop" where
  "stop L = (if is_running L then L\<lparr>should_stop := True\<rparr> else L)"

definition can_be_cancelled :: "Loop \<Rightarrow> bool" where
  "can_be_cancelled L = (\<not> will_cancel L \<and> is_running L)"

text \<open>\<open>Task.cancel\<close>: the request is recorded and the future the task waits for is cancelled.\<close>

definition awaits_sleeper :: "Loop \<Rightarrow> bool" where
  "awaits_sleeper L =
     (task L = Some (Running AwaitSleepTop) \<or> task L = Some (Running AwaitSleepDrift) \<or>
      task L = Some (Running AwaitSleepRel))"

definition task_cancel :: "Loop \<Rightarrow> Loop" where
  "task_cancel L =
     (let L1 = L\<lparr>must_cancel := True\<rparr>
      in if awaits_sleeper L1 then interrupted L1 else L1)"

definition cancel :: "Loop \<Rightarrow> Loop" where
  "cancel L = (if can_be_cancelled L then task_cancel L else L)"

text \<open>An argument of \<open>add_exception\<close>: a class, with whether it derives from
  \<open>BaseException\<close>, or an object that is not a class.\<close>

datatype exc_arg = AClass exc_class bool | NotAClass

definition add_exception :: "exc_arg list \<Rightarrow> Loop \<Rightarrow> Loop" where
  "add_exception args L =
     fold (\<lambda>a L'. case a of
                    AClass c True \<Rightarrow> L'\<lparr>whitelist_exceptions := whitelist_exceptions L' @ [c]\<rparr>
                  | _ \<Rightarrow> L') args L"

definition remove_exception :: "exc_class list \<Rightarrow> Loop \<Rightarrow> Loop" where
  "remove_exception args L =
     L\<lparr>whitelist_exceptions := filter (\<lambda>x. x \<notin> set args) (whitelist_exceptions L)\<rparr>"

definition reset_exceptions :: "Loop \<Rightarrow> Loop" where
  "reset_exceptions L = L\<lparr>whitelist_exceptions := [OSError, TimeoutError, ClientError]\<rparr>"

text \<open>
  Everything that can happen to an instance: a call of its control surface, or the event
  loop resuming its task. Each comes with the reading of the clock at that moment.
\<close>

datatype op =
  Start | Stop | Cancel
  | HandleInterval "real option" "real option" "real option" time_arg
  | AddException "exc_arg list" | RemoveException "exc_class list" | ResetExceptions
  | Resume event

definition step :: "int \<times> op \<Rightarrow> Loop \<Rightarrow> Loop" where
  "step l L =
     (case snd l of
        Start \<Rightarrow> snd (start L)
      | Stop \<Rightarrow> stop L
      | Cancel \<Rightarrow> cancel L
      | HandleInterval s m h t \<Rightarrow> snd (handle_interval s m h t (fst l) L)
      | AddException args \<Rightarrow> add_exception args L
      | RemoveException args \<Rightarrow> remove_exception args L
      | ResetExceptions \<Rightarrow> reset_exceptions L
      | Resume ev \<Rightarrow> resume ev (fst l) L)"

definition run :: "(int \<times> op) list \<Rightarrow> Loop \<Rightarrow> Loop" where
  "run ls L = fold step ls L"

section \<open>What the specification says, in its own words\<close>

text \<open>
  A listed time qualifies when it is greater than or equal to the time of day of \<open>now\<close>
  converted into that time's zone. The next run is the first qualifying time on today's
  date (the date of \<open>now\<close> in that zone), or else the first listed time on tomorrow's date.
\<close>

definition slot_qualifies :: "datetime \<Rightarrow> atime \<Rightarrow> bool" where
  "slot_qualifies now t = (wall (astimezone (a_tz t) now) mod day_us \<le> a_tod t)"

definition spec_next_run :: "atime list \<Rightarrow> datetime \<Rightarrow> datetime" where
  "spec_next_run ts now =
     (case find (slot_qualifies now) ts of
        Some t \<Rightarrow> astimezone UTC (combine (date_of (astimezone (a_tz t) now)) t)
      | None \<Rightarrow> astimezone UTC (combine (date_of (astimezone (a_tz (hd ts)) now) + 1) (hd ts)))"

definition hour_us :: int where
  "hour_us = 3600000000"

definition at_hour :: "int \<Rightarrow> atime" where
  "at_hour h = \<lparr>a_tod = h * hour_us, a_tz = UTC\<rparr>"








text \<open>An instance for the examples: \<open>Loop(seconds=5)\<close> with the defaults.\<close>

definition every_5_seconds :: Loop where
  "every_5_seconds =
     snd (handle_interval (Some 5) None None TimeNone 0 (initial_fields None True))"


text \<open>
  Examples. \<open>Loop(seconds=5)\<close> is started at clock 0; \<open>first_body\<close> is the instance while the
  body of the first cycle runs, \<open>second_body\<close> while the body of the second cycle runs
  (the first body returned after one second, the wait ended at five seconds).
\<close>

definition first_body :: Loop where
  "first_body =
     run [(0, Start), (0, Resume Ret), (0, Resume Ret), (0, Resume Ret)] every_5_seconds"

definition second_body :: Loop where
  "second_body = run [(1000000, Resume Ret), (5000000, Resume Ret)] first_body"

definition keyboard_interrupt :: exc where
  "keyboard_interrupt = Exc [KeyboardInterrupt, BaseException]"






text \<open>
  What holds of the countdown timer of an instance and the event loop in every reachable
  state: every trigger completes an existing future; the timer's handle is a registered
  trigger for the timer's signal; any other trigger for that signal is cancelled; and while
  the signal is pending the handle is neither cancelled nor run.
\<close>

definition timer_inv :: "Sleeper option \<Rightarrow> event_loop \<Rightarrow> bool" where
  "timer_inv a h =
     ((\<forall>i < length (timers h). target (timers h ! i) < length (futures h)) \<and>
      (case a of
         None \<Rightarrow> True
       | Some s \<Rightarrow>
           future s < length (futures h) \<and> handle s < length (timers h) \<and>
           target (timers h ! handle s) = future s \<and>
           (\<forall>i < length (timers h).
              i \<noteq> handle s \<longrightarrow> target (timers h ! i) = future s \<longrightarrow> cancelled (timers h ! i)) \<and>
           (futures h ! future s = Pending \<longrightarrow>
              \<not> cancelled (timers h ! handle s) \<and> \<not> fired (timers h ! handle s))))"


section \<open>The next run in absolute-time mode\<close>

lemma find_from_None:
  "find_from i ts now = None \<longleftrightarrow> find (slot_qualifies now) ts = None"
  by (induction ts arbitrary: i)
     (auto simp: slot_qualifies_def time_ge_def timetz_def astimezone_def Let_def)

lemma find_from_Some:
  "find_from i ts now = Some k \<Longrightarrow>
     i \<le> k \<and> k - i < length ts \<and> find (slot_qualifies now) ts = Some (ts ! (k - i))"
proof (induction ts arbitrary: i)
  case Nil
  then show ?case by simp
next
  case (Cons t ts)
  show ?case
  proof (cases "slot_qualifies now t")
    case True
    with Cons.prems show ?thesis
      by (simp add: slot_qualifies_def time_ge_def timetz_def astimezone_def Let_def)
  next
    case False
    with Cons.prems have "find_from (Suc i) ts now = Some k"
      by (simp add: slot_qualifies_def time_ge_def timetz_def astimezone_def Let_def)
    from Cons.IH[OF this] False show ?thesis
      by (auto simp: Suc_diff_Suc less_eq_Suc_le)
  qed
qed

lemma date_tomorrow: "date_of (add_timedelta d day_us) = date_of d + 1"
  by (simp add: date_of_def add_timedelta_def day_us_def)

lemma next_sleep_time_explicit:
  assumes "sleep L = None" and "time L = Some ts" and "ts \<noteq> []"
  shows "next_sleep_time L now = Inr (spec_next_run ts now)"
proof (cases "find_from 0 ts now")
  case None
  then have "find (slot_qualifies now) ts = None"
    by (simp add: find_from_None)
  moreover from assms obtain t rest where "ts = t # rest"
    by (cases ts) auto
  ultimately show ?thesis using assms None
    by (simp add: next_sleep_time_def find_time_index_def spec_next_run_def date_tomorrow)
next
  case (Some k)
  from find_from_Some[OF this] have "find (slot_qualifies now) ts = Some (ts ! k)"
    by simp
  moreover from assms obtain t rest where "ts = t # rest"
    by (cases ts) auto
  ultimately show ?thesis using assms Some
    by (simp add: next_sleep_time_def find_time_index_def spec_next_run_def Let_def)
qed

lemma nine_to_five_morning:
  "spec_next_run [at_hour 9, at_hour 17] (utcnow (d * day_us + 8 * hour_us)) =
     utcnow (d * day_us + 9 * hour_us)"
  by (simp add: spec_next_run_def slot_qualifies_def at_hour_def astimezone_def
      utc_instant_def utcnow_def UTC_def utcoffset_def day_us_def hour_us_def combine_def
      date_of_def)

lemma nine_to_five_evening:
  "spec_next_run [at_hour 9, at_hour 17] (utcnow (d * day_us + 18 * hour_us)) =
     utcnow ((d + 1) * day_us + 9 * hour_us)"
  by (simp add: spec_next_run_def slot_qualifies_def at_hour_def astimezone_def
      utc_instant_def utcnow_def UTC_def utcoffset_def day_us_def hour_us_def combine_def
      date_of_def)

text \<open>
  Claim C1. In absolute-time mode, for every reading \<open>now\<close> of the clock and every non-empty
  list of aware times of day, \<open>_next_sleep_time\<close> returns the first listed time that is
  greater than or equal to the time of day of \<open>now\<close> in that time's zone, on today's date,
  and when no listed time qualifies the first time of the list on tomorrow's date. With
  the times 09:00 and 17:00 UTC, at 08:00 UTC of any day \<open>d\<close> the next run is 09:00 of day
  \<open>d\<close>, and at 18:00 UTC it is 09:00 of day \<open>d + 1\<close>.
\<close>

theorem next_sleep_time_absolute:
  assumes "sleep L = None" and "time L = Some ts" and "ts \<noteq> []"
  shows "next_sleep_time L now = Inr (spec_next_run ts now) \<and>
         (ts = [at_hour 9, at_hour 17] \<longrightarrow>
            (\<forall>d. next_sleep_time L (utcnow (d * day_us + 8 * hour_us)) =
                    Inr (utcnow (d * day_us + 9 * hour_us)) \<and>
                  next_sleep_time L (utcnow (d * day_us + 18 * hour_us)) =
                    Inr (utcnow ((d + 1) * day_us + 9 * hour_us))))"
  using assms
  by (simp add: next_sleep_time_explicit nine_to_five_morning nine_to_five_evening)

theorem next_sleep_time_absolute_witness:
  "sleep ((initial_fields None True)\<lparr>time := Some [at_hour 9, at_hour 17]\<rparr>) = None \<and>
   time ((initial_fields None True)\<lparr>time := Some [at_hour 9, at_hour 17]\<rparr>) =
     Some [at_hour 9, at_hour 17] \<and>
   [at_hour 9, at_hour 17] \<noteq> [] \<and>
   next_sleep_time ((initial_fields None True)\<lparr>time := Some [at_hour 9, at_hour 17]\<rparr>)
     (utcnow (19000 * day_us + 18 * hour_us)) = Inr (utcnow (19001 * day_us + 9 * hour_us))"
  using next_sleep_time_absolute
    [of "(initial_fields None True)\<lparr>time := Some [at_hour 9, at_hour 17]\<rparr>"
        "[at_hour 9, at_hour 17]" "utcnow 0"]
  by (simp add: initial_fields_def)

section \<open>The countdown timer\<close>

lemma replicate_update_same: "(replicate n x)[i := x] = replicate n x"
  by (induction n arbitrary: i) (simp_all split: nat.splits)

lemma flags_update_append:
  assumes "i < length ts" and "map P ts = (replicate (length ts) False)[i := True]" and "\<not> P c" and "P n"
  shows "map P (ts[i := c] @ [n]) = (replicate (Suc (length ts)) False)[length ts := True]"
proof (rule nth_equalityI)
  show "length (map P (ts[i := c] @ [n])) = length ((replicate (Suc (length ts)) False)[length ts := True])"
    by (simp del: replicate_Suc)
next
  fix j assume "j < length (map P (ts[i := c] @ [n]))"
  then have j: "j < Suc (length ts)" by simp
  show "map P (ts[i := c] @ [n]) ! j = (replicate (Suc (length ts)) False)[length ts := True] ! j"
  proof (cases "j = length ts")
    case True
    then show ?thesis using assms(4) by (simp add: nth_append del: replicate_Suc)
  next
    case False
    with j have jl: "j < length ts" by simp
    have "map P ts ! j = (replicate (length ts) False)[i := True] ! j" using assms(2) by simp
    then have "P (ts ! j) = (j = i)" using jl assms(1) by (simp add: nth_list_update)
    then show ?thesis using jl False assms(3)
      by (cases "j = i") (simp_all add: nth_append nth_list_update del: replicate_Suc)
  qed
qed

lemma recalculate_in_flight:
  assumes "in_flight s h"
  shows "in_flight (fst (recalculate s dt now h)) (snd (recalculate s dt now h))"
proof -
  let ?P = "\<lambda>t. target t = future s \<and> \<not> cancelled t \<and> \<not> fired t"
  have a: "handle s < length (timers h)" and b: "map ?P (timers h) = (replicate (length (timers h)) False)[handle s := True]"
    and c: "future s < length (futures h)" "futures h ! future s = Pending"
    using assms by (simp_all add: in_flight_def trigger_flags_def)
  have "map ?P ((timers h)[handle s := (timers h ! handle s)\<lparr>cancelled := True\<rparr>] @ [\<lparr>delay = remaining dt now, cancelled = False, fired = False, target = future s\<rparr>])
      = (replicate (Suc (length (timers h))) False)[length (timers h) := True]"
    by (rule flags_update_append[OF a b]) simp_all
  then show ?thesis using c
    by (simp add: in_flight_def recalculate_def handle_cancel_def call_later_def trigger_flags_def Let_def del: replicate_Suc)
qed

lemma recalculate_effect:
  assumes "handle s < length (timers h)"
  shows "future (fst (recalculate s dt now h)) = future s"
    and "futures (snd (recalculate s dt now h)) = futures h"
    and "handle (fst (recalculate s dt now h)) = length (timers h)"
    and "length (timers (snd (recalculate s dt now h))) = Suc (length (timers h))"
    and "cancelled (timers (snd (recalculate s dt now h)) ! handle s)"
    and "delay (timers (snd (recalculate s dt now h)) ! length (timers h)) = max (utc_instant dt - now) 0"
    and "target (timers (snd (recalculate s dt now h)) ! length (timers h)) = future s"
  using assms
  by (simp_all add: recalculate_def handle_cancel_def call_later_def Let_def nth_append remaining_def utcnow_def utc_instant_def UTC_def utcoffset_def)

lemma fire_in_flight:
  assumes "in_flight s h"
  shows "futures (fire (handle s) h) ! future s = Result"
    and "trigger_flags (future s) (fire (handle s) h) = replicate (length (timers h)) False"
proof -
  let ?P = "\<lambda>t. target t = future s \<and> \<not> cancelled t \<and> \<not> fired t"
  have a: "handle s < length (timers h)" and b: "map ?P (timers h) = (replicate (length (timers h)) False)[handle s := True]"
    and c: "future s < length (futures h)" "futures h ! future s = Pending"
    using assms by (simp_all add: in_flight_def trigger_flags_def)
  have "map ?P (timers h) ! handle s = (replicate (length (timers h)) False)[handle s := True] ! handle s"
    using b by simp
  then have p: "?P (timers h ! handle s)" using a by simp
  show "futures (fire (handle s) h) ! future s = Result"
    using a p c by (simp add: fire_def Let_def)
  have "map ?P ((timers h)[handle s := (timers h ! handle s)\<lparr>fired := True\<rparr>]) = replicate (length (timers h)) False"
    using b by (simp add: map_update replicate_update_same)
  then show "trigger_flags (future s) (fire (handle s) h) = replicate (length (timers h)) False"
    using a p c by (simp add: fire_def Let_def trigger_flags_def)
qed

lemma fire_cancelled:
  assumes "i < length (timers h)" and "cancelled (timers h ! i)"
  shows "fire i h = h"
  using assms by (simp add: fire_def)

text \<open>
  Claim C7. While the wait of a sleeper is in flight (its signal is pending and its handle is
  the one pending trigger registered for it), \<open>recalculate\<close> with any deadline cancels the
  previous trigger and registers exactly one new trigger for the same signal, whose
  remaining wait is the time to the deadline, or zero when the deadline is not in the
  future. The wait is still in flight afterwards: one pending trigger, the signal neither
  completed nor lost. When that trigger runs the signal completes and no trigger is left
  that could complete it again; the cancelled trigger does nothing when its time comes.
\<close>

theorem recalculate_one_pending_trigger:
  assumes "in_flight s h"
  shows "in_flight (fst (recalculate s dt now h)) (snd (recalculate s dt now h)) \<and>
         future (fst (recalculate s dt now h)) = future s \<and>
         futures (snd (recalculate s dt now h)) = futures h \<and>
         length (timers (snd (recalculate s dt now h))) = Suc (length (timers h)) \<and>
         handle (fst (recalculate s dt now h)) = length (timers h) \<and>
         cancelled (timers (snd (recalculate s dt now h)) ! handle s) \<and>
         target (timers (snd (recalculate s dt now h)) ! length (timers h)) = future s \<and>
         delay (timers (snd (recalculate s dt now h)) ! length (timers h)) =
           max (utc_instant dt - now) 0 \<and>
         fire (handle s) (snd (recalculate s dt now h)) = snd (recalculate s dt now h) \<and>
         futures (fire (length (timers h)) (snd (recalculate s dt now h))) ! future s = Result \<and>
         trigger_flags (future s) (fire (length (timers h)) (snd (recalculate s dt now h))) =
           replicate (Suc (length (timers h))) False"
proof -
  let ?s = "fst (recalculate s dt now h)" and ?h = "snd (recalculate s dt now h)"
  have a: "handle s < length (timers h)"
    using assms by (simp add: in_flight_def)
  have inv: "in_flight ?s ?h"
    by (rule recalculate_in_flight[OF assms])
  note eff = recalculate_effect[OF a, of dt now]
  have old: "fire (handle s) ?h = ?h"
    using a eff(4,5) by (intro fire_cancelled) simp_all
  from fire_in_flight[OF inv]
  have new: "futures (fire (length (timers h)) ?h) ! future s = Result"
       "trigger_flags (future s) (fire (length (timers h)) ?h) =
          replicate (Suc (length (timers h))) False"
    using eff(1,3,4) by simp_all
  show ?thesis
    using inv eff old new by simp
qed

theorem recalculate_one_pending_trigger_witness:
  "in_flight \<lparr>future = 0, handle = 0\<rparr>
     \<lparr>futures = [Pending],
      timers = [\<lparr>delay = 10, cancelled = False, fired = False, target = 0\<rparr>]\<rparr> \<and>
   recalculate \<lparr>future = 0, handle = 0\<rparr> (utcnow 3) 5
     \<lparr>futures = [Pending],
      timers = [\<lparr>delay = 10, cancelled = False, fired = False, target = 0\<rparr>]\<rparr> =
     (\<lparr>future = 0, handle = 1\<rparr>,
      \<lparr>futures = [Pending],
       timers = [\<lparr>delay = 10, cancelled = True, fired = False, target = 0\<rparr>,
                 \<lparr>delay = 0, cancelled = False, fired = False, target = 0\<rparr>]\<rparr>) \<and>
   in_flight \<lparr>future = 0, handle = 1\<rparr>
     \<lparr>futures = [Pending],
      timers = [\<lparr>delay = 10, cancelled = True, fired = False, target = 0\<rparr>,
                \<lparr>delay = 0, cancelled = False, fired = False, target = 0\<rparr>]\<rparr>"
proof -
  have a: "in_flight \<lparr>future = 0, handle = 0\<rparr>
     \<lparr>futures = [Pending],
      timers = [\<lparr>delay = 10, cancelled = False, fired = False, target = 0\<rparr>]\<rparr>"
    by (simp add: in_flight_def trigger_flags_def)
  have b: "recalculate \<lparr>future = 0, handle = 0\<rparr> (utcnow 3) 5
     \<lparr>futures = [Pending],
      timers = [\<lparr>delay = 10, cancelled = False, fired = False, target = 0\<rparr>]\<rparr> =
     (\<lparr>future = 0, handle = 1\<rparr>,
      \<lparr>futures = [Pending],
       timers = [\<lparr>delay = 10, cancelled = True, fired = False, target = 0\<rparr>,
                 \<lparr>delay = 0, cancelled = False, fired = False, target = 0\<rparr>]\<rparr>)"
    by (simp add: recalculate_def handle_cancel_def call_later_def remaining_def
        utc_instant_def utcnow_def UTC_def utcoffset_def)
  from recalculate_one_pending_trigger[OF a, of "utcnow 3" 5] a b
  show ?thesis by simp
qed

section \<open>Configuration errors\<close>














lemma initial_not_running: "\<not> is_running (L\<lparr>task := None\<rparr>)"
  by (simp add: is_running_def)




section \<open>The failed flag\<close>

lemmas model_defs = run_def step_def start_def stop_def cancel_def task_cancel_def
  can_be_cancelled_def awaits_sleeper_def resume_def after_before_loop_def enter_try_def
  loop_top_def after_wake_def drift_check_def call_body_def body_returned_def body_raised_def
  after_cycle_def try_sleep_until_def handle_exception_def enter_finally_def cleanup_def
  finish_def outcome_of_def woken_def interrupted_def is_running_def is_explicit_time_def
  is_relative_time_def next_sleep_time_def handle_interval_def reschedule_def
  initial_fields_def or_zero_def truthy_def Sleeper_init_def create_future_def call_later_def
  remaining_def utcnow_def utc_instant_def UTC_def utcoffset_def add_timedelta_def
  timedelta_seconds_def round_half_even_def fire_def future_cancel_def handle_cancel_def
  cancel_sleeper_def sleeper_done_def future_done_def recalculate_def isinstance_def
  caught_by_def value_error_def type_error_def attribute_error_def cancelled_error_def
  index_error_def runtime_error_def datetime_le_def failed_def every_5_seconds_def

lemma failed_finish: "has_faild (finish out L) = has_faild L"
  by (simp add: finish_def)

lemma failed_enter_finally: "has_faild (enter_finally ex L) = has_faild L"
  by (simp add: enter_finally_def)

lemma failed_cleanup: "has_faild (cleanup ex L) = has_faild L"
  by (simp add: cleanup_def finish_def split: option.splits)

lemma failed_handle_exception: "has_faild L \<Longrightarrow> has_faild (handle_exception e L)"
  by (simp add: handle_exception_def failed_enter_finally)

lemma failed_try_sleep_until: "has_faild L \<Longrightarrow> has_faild (try_sleep_until dt now p L)"
  by (simp add: try_sleep_until_def failed_handle_exception split: option.splits prod.splits)

lemma failed_call_body: "has_faild (call_body L) = has_faild L"
  by (simp add: call_body_def)

lemma failed_drift_check: "has_faild L \<Longrightarrow> has_faild (drift_check now L)"
  by (simp add: drift_check_def failed_handle_exception failed_try_sleep_until failed_call_body
      split: option.splits)

lemma failed_after_wake: "has_faild L \<Longrightarrow> has_faild (after_wake now L)"
  by (simp add: after_wake_def Let_def failed_handle_exception failed_drift_check failed_call_body
      split: sum.splits)

lemma failed_loop_top: "has_faild L \<Longrightarrow> has_faild (loop_top now L)"
  by (simp add: loop_top_def failed_try_sleep_until failed_after_wake)

lemma failed_enter_try: "has_faild L \<Longrightarrow> has_faild (enter_try now L)"
  by (simp add: enter_try_def failed_enter_finally failed_loop_top)

lemma failed_after_cycle: "has_faild L \<Longrightarrow> has_faild (after_cycle now L)"
  by (simp add: after_cycle_def Let_def failed_enter_finally failed_loop_top)

lemma failed_body_returned: "has_faild L \<Longrightarrow> has_faild (body_returned now L)"
  by (simp add: body_returned_def Let_def failed_enter_finally failed_try_sleep_until
      failed_after_cycle)

lemma failed_body_raised: "has_faild L \<Longrightarrow> has_faild (body_raised e L)"
  by (simp add: body_raised_def Let_def failed_handle_exception)

lemma failed_after_before_loop: "has_faild L \<Longrightarrow> has_faild (after_before_loop now L)"
  by (simp add: after_before_loop_def Let_def failed_finish failed_enter_try split: sum.splits)

lemma failed_woken: "has_faild (woken L) = has_faild L"
  by (simp add: woken_def split: option.splits)

lemma failed_interrupted: "has_faild (interrupted L) = has_faild L"
  by (simp add: interrupted_def split: option.splits)

lemma failed_resume: "has_faild L \<Longrightarrow> has_faild (resume ev now L)"
  by (simp add: resume_def Let_def failed_finish failed_enter_finally failed_cleanup
      failed_handle_exception failed_drift_check failed_after_wake failed_loop_top
      failed_enter_try failed_after_cycle failed_body_returned failed_body_raised
      failed_after_before_loop failed_woken failed_interrupted
      split: option.splits task.splits pc.splits event.splits sum.splits)

lemma failed_reschedule: "has_faild L \<Longrightarrow> has_faild (snd (reschedule now L))"
  by (simp add: reschedule_def Let_def split: sum.splits option.splits prod.splits)

lemma failed_handle_interval: "has_faild L \<Longrightarrow> has_faild (snd (handle_interval s m h tm now L))"
  by (simp add: handle_interval_def Let_def failed_reschedule split: sum.splits)

lemma failed_add_exception: "has_faild (add_exception args L) = has_faild L"
proof -
  have "has_faild (fold (\<lambda>a L'. case a of
                    AClass c True \<Rightarrow> L'\<lparr>whitelist_exceptions := whitelist_exceptions L' @ [c]\<rparr>
                  | _ \<Rightarrow> L') args L) = has_faild L"
    by (induction args arbitrary: L) (auto split: exc_arg.splits bool.splits)
  then show ?thesis by (simp add: add_exception_def)
qed

lemma failed_step: "has_faild L \<Longrightarrow> has_faild (step l L)"
  by (simp add: step_def start_def stop_def cancel_def task_cancel_def Let_def
      failed_interrupted failed_handle_interval failed_add_exception remove_exception_def
      reset_exceptions_def failed_resume split: op.splits)

lemma failed_run: "has_faild L \<Longrightarrow> has_faild (run ls L)"
  unfolding run_def by (induction ls arbitrary: L) (simp_all add: failed_step)

text \<open>
  Claim C10. Once the failed flag is set, it stays set whatever happens to the instance
  afterwards: any sequence of \<open>start\<close>, \<open>stop\<close>, \<open>cancel\<close>, \<open>handle_interval\<close>, changes of
  the whitelist and resumptions of its task (so any number of later run contexts), and
  any single one of them. The observer \<open>failed\<close> keeps returning true.
\<close>

theorem failed_flag_is_sticky:
  assumes "failed L"
  shows "failed (run ls L) \<and> failed (step l L)"
  using assms by (simp add: failed_def failed_run failed_step)

theorem failed_flag_is_sticky_witness:
  "failed (run [(0, Start), (0, Resume Ret), (0, Resume Ret), (0, Resume Ret),
                (1, Resume (Throw value_error)), (1, Resume Ret), (1, Resume Ret)]
             every_5_seconds) \<and>
   failed (run [(2, Start), (2, Resume Ret), (2, Resume Ret), (2, Resume Ret), (3, Resume Ret),
                (8, Resume Ret), (9, Stop), (9, Resume Ret), (9, Resume Ret)]
            (run [(0, Start), (0, Resume Ret), (0, Resume Ret), (0, Resume Ret),
                  (1, Resume (Throw value_error)), (1, Resume Ret), (1, Resume Ret)]
               every_5_seconds))"
proof -
  have a: "failed (run [(0, Start), (0, Resume Ret), (0, Resume Ret), (0, Resume Ret),
                (1, Resume (Throw value_error)), (1, Resume Ret), (1, Resume Ret)]
             every_5_seconds)"
    by (simp add: model_defs Let_def)
  from failed_flag_is_sticky[OF a] a show ?thesis by blast
qed

section \<open>The cadence in relative-interval mode\<close>

lemma resume_at:
  "task L = Some (Running NotStarted) \<Longrightarrow> resume Ret now L =
     L\<lparr>calls := calls L @ [CallBeforeLoop], task := Some (Running AwaitBeforeLoop)\<rparr>"
  "task L = Some (Running NotStarted) \<Longrightarrow> resume (Throw e) now L = finish (outcome_of e) L"
  "task L = Some (Running AwaitBeforeLoop) \<Longrightarrow> resume Ret now L = after_before_loop now L"
  "task L = Some (Running AwaitBeforeLoop) \<Longrightarrow> resume (Throw e) now L = finish (outcome_of e) L"
  "task L = Some (Running AwaitYield) \<Longrightarrow> resume Ret now L = enter_try now L"
  "task L = Some (Running AwaitYield) \<Longrightarrow> resume (Throw e) now L = finish (outcome_of e) L"
  "task L = Some (Running AwaitSleepTop) \<Longrightarrow> resume Ret now L = after_wake now (woken L)"
  "task L = Some (Running AwaitSleepTop) \<Longrightarrow>
     resume (Throw e) now L = handle_exception e (interrupted L)"
  "task L = Some (Running AwaitSleepDrift) \<Longrightarrow> resume Ret now L =
     (case next_sleep_time (woken L) (utcnow now) of
        Inl e \<Rightarrow> handle_exception e (woken L)
      | Inr n \<Rightarrow> drift_check now ((woken L)\<lparr>next_loop := Some n\<rparr>))"
  "task L = Some (Running AwaitSleepDrift) \<Longrightarrow>
     resume (Throw e) now L = handle_exception e (interrupted L)"
  "task L = Some (Running AwaitBody) \<Longrightarrow> resume Ret now L = body_returned now L"
  "task L = Some (Running AwaitBody) \<Longrightarrow> resume (Throw e) now L = body_raised e L"
  "task L = Some (Running AwaitBackoff) \<Longrightarrow> resume Ret now L = loop_top now L"
  "task L = Some (Running AwaitBackoff) \<Longrightarrow> resume (Throw e) now L = handle_exception e L"
  "task L = Some (Running AwaitSleepRel) \<Longrightarrow> resume Ret now L = after_cycle now (woken L)"
  "task L = Some (Running AwaitSleepRel) \<Longrightarrow>
     resume (Throw e) now L = handle_exception e (interrupted L)"
  "task L = Some (Running AwaitErrorHook) \<Longrightarrow> resume Ret now L = enter_finally ExitNormal L"
  "task L = Some (Running AwaitErrorHook) \<Longrightarrow>
     resume (Throw e) now L = enter_finally (ExitRaise e) L"
  "task L = Some (Running (AwaitAfterLoop ex)) \<Longrightarrow> resume Ret now L = cleanup ex L"
  "task L = Some (Running (AwaitAfterLoop ex)) \<Longrightarrow>
     resume (Throw e) now L = finish (outcome_of e) L"
  by (simp_all add: resume_def Let_def)

lemma resume_not_running:
  "\<not> is_running L \<Longrightarrow> resume ev now L = L"
  by (simp add: resume_def is_running_def split: option.splits task.splits)

lemma after_wake_relative:
  assumes "sleep L = Some d" and "time L = None" and "next_loop L = Some n"
    and "\<not> last_loop_failed L"
  shows "after_wake now L =
           L\<lparr>last_loop := Some n, next_loop := Some (add_timedelta n (timedelta_seconds d)),
             calls := calls L @ [CallBody], task := Some (Running AwaitBody)\<rparr>"
  using assms
  by (simp add: after_wake_def next_sleep_time_def drift_check_def is_explicit_time_def
      call_body_def Let_def)





lemma first_cycle_relative:
  assumes "task L = Some (Running AwaitYield)" and "sleep L = Some d" and "time L = None"
    and "next_loop L = Some n" and "\<not> should_stop L" and "\<not> last_loop_failed L"
  shows "resume Ret t L =
           L\<lparr>last_loop := Some n, next_loop := Some (add_timedelta n (timedelta_seconds d)),
             calls := calls L @ [CallBody], task := Some (Running AwaitBody)\<rparr>"
  using assms
  by (simp add: resume_at enter_try_def loop_top_def is_explicit_time_def after_wake_relative)




section \<open>Whitelisted failures\<close>









section \<open>Runs used as examples\<close>

lemmas example_defs = first_body_def second_body_def keyboard_interrupt_def

section \<open>Termination of a run context\<close>

text \<open>
  Claim C3, evaluated. \<open>stop\<close> is called while the body of the first cycle of
  \<open>Loop(seconds=5)\<close> runs. The body returns, the loop leaves through \<open>finally\<close> and calls
  \<open>after_loop\<close>; no \<open>Sleeper\<close> was ever created, so reading \<open>self._handle\<close> raises
  \<open>AttributeError\<close> and the three assignments after it do not run: the task ends with that
  error and the stop request is still set. The next \<open>start\<close> is accepted, and its context
  leaves at once without calling the body. In the same way a cancellation during the
  first body leaves the will-cancel flag set for good.
\<close>

theorem cleanup_skipped_without_timer:
  "task (run [(2000000, Stop), (3000000, Resume Ret), (3000000, Resume Ret)] first_body) =
     Some (Finished (Raised attribute_error)) \<and>
   calls (run [(2000000, Stop), (3000000, Resume Ret), (3000000, Resume Ret)] first_body) =
     [CallBeforeLoop, CallSleep 0, CallBody, CallAfterLoop] \<and>
   handle_attr (run [(2000000, Stop), (3000000, Resume Ret), (3000000, Resume Ret)] first_body) =
     None \<and>
   should_stop (run [(2000000, Stop), (3000000, Resume Ret), (3000000, Resume Ret)] first_body) \<and>
   calls (run [(2000000, Stop), (3000000, Resume Ret), (3000000, Resume Ret),
               (9000000, Start), (9000000, Resume Ret), (9000000, Resume Ret),
               (9000000, Resume Ret), (9000000, Resume Ret)] first_body) =
     [CallBeforeLoop, CallSleep 0, CallBody, CallAfterLoop,
      CallBeforeLoop, CallSleep 0, CallAfterLoop] \<and>
   should_stop (run [(2000000, Stop), (3000000, Resume Ret), (3000000, Resume Ret),
               (9000000, Start), (9000000, Resume Ret), (9000000, Resume Ret),
               (9000000, Resume Ret), (9000000, Resume Ret)] first_body) \<and>
   task (run [(2000000, Cancel), (2000000, Resume (Throw cancelled_error)),
              (2000000, Resume Ret)] first_body) =
     Some (Finished (Raised attribute_error)) \<and>
   is_being_cancelled (run [(2000000, Cancel), (2000000, Resume (Throw cancelled_error)),
              (2000000, Resume Ret)] first_body)"
  by (simp add: example_defs model_defs is_being_cancelled_def Let_def)

section \<open>Fatal failures\<close>







section \<open>Starting\<close>






section \<open>Reachable states\<close>









lemma next_sleep_time_relative_last:
  assumes "next_sleep_time L now = Inr n" and "time L = None"
  shows "last_loop L \<noteq> None"
  using assms
  by (auto simp: next_sleep_time_def find_time_index_def split: option.splits)






















section \<open>The countdown timer in reachable states\<close>

lemma timer_inv_None: "timer_inv a h \<Longrightarrow> timer_inv None h"
  by (simp add: timer_inv_def)































section \<open>Changing the interval while running\<close>









end
